theory Spec2Isabelle
  imports Complex_Main "HOL-Library.Sublist"
begin

section \<open>JavaScript numbers and strings\<close>

text \<open>
  A JavaScript number is an IEEE 754 binary64 value. A finite number is modelled by its
  exact rational value; an arithmetic operation computes the exact result and rounds it
  to the nearest binary64 value, ties to the even significand. The model covers finite
  results (magnitude below \<open>2 ^ 1024\<close>); the numbers of this program (a confidence between
  0 and 1, a duration in milliseconds, a count) stay far below.
\<close>

fun bit_length :: "nat \<Rightarrow> nat" where
  "bit_length n = (if n = 0 then 0 else Suc (bit_length (n div 2)))"

declare bit_length.simps [simp del]

definition pow2 :: "int \<Rightarrow> rat" where
  "pow2 k = (if 0 \<le> k then 2 ^ nat k else 1 / 2 ^ nat (- k))"

definition exponent :: "rat \<Rightarrow> int" where
  \<comment> \<open>for \<open>0 < x\<close>, the \<open>e\<close> with \<open>2 ^ e \<le> x < 2 ^ (e + 1)\<close>\<close>
  "exponent x =
     (if 1 \<le> x then int (bit_length (nat \<lfloor>x\<rfloor>)) - 1
      else - int (bit_length (nat (\<lceil>1 / x\<rceil> - 1))))"

definition round_half_even :: "rat \<Rightarrow> int" where
  "round_half_even q =
     (let f = \<lfloor>q\<rfloor>; d = q - of_int f
      in if d < 1 / 2 then f else if 1 / 2 < d then f + 1
         else if even f then f else f + 1)"

definition binary64 :: "rat \<Rightarrow> rat" where
  \<comment> \<open>53 bits of significand; the unit in the last place is never below \<open>2 ^ - 1074\<close>\<close>
  "binary64 x =
     (if x = 0 then 0
      else let a = \<bar>x\<bar>; u = pow2 (max (exponent a - 52) (- 1074))
           in sgn x * of_int (round_half_even (a / u)) * u)"

definition js_times :: "rat \<Rightarrow> rat \<Rightarrow> rat" where
  "js_times x y = binary64 (x * y)"

definition js_divide :: "rat \<Rightarrow> rat \<Rightarrow> rat" where
  \<comment> \<open>\<open>x / y\<close> for \<open>y \<noteq> 0\<close>\<close>
  "js_divide x y = binary64 (x / y)"

definition js_remainder :: "nat \<Rightarrow> nat \<Rightarrow> rat" where
  \<comment> \<open>\<open>x % y\<close> on non-negative integers: the remainder is exact\<close>
  "js_remainder x y = of_nat (x mod y)"

definition Math_floor :: "rat \<Rightarrow> int" where
  "Math_floor x = \<lfloor>x\<rfloor>"

text \<open>
  Strings are lists of bytes (UTF-8). \<open>digits\<close> is the decimal numeral that
  \<open>Number::toString\<close> gives for a non-negative integer below \<open>10 ^ 21\<close>.
\<close>

definition digit_char :: "nat \<Rightarrow> char" where
  "digit_char d = ''0123456789'' ! d"

fun digits :: "nat \<Rightarrow> string" where
  "digits n = (if n < 10 then [digit_char n] else digits (n div 10) @ [digit_char (n mod 10)])"

declare digits.simps [simp del]

definition toFixed0 :: "rat \<Rightarrow> string" where
  \<comment> \<open>\<open>x.toFixed(0)\<close> for \<open>\<bar>x\<bar> < 10 ^ 21\<close>: the integer nearest to \<open>x\<close>, the larger
      one of two; a negative \<open>x\<close> is formatted as \<open>- x\<close> after a minus sign\<close>
  "toFixed0 x =
     (if x < 0 then CHR ''-'' # digits (nat \<lfloor>- x + 1 / 2\<rfloor>)
      else digits (nat \<lfloor>x + 1 / 2\<rfloor>))"

definition padStart :: "nat \<Rightarrow> char \<Rightarrow> string \<Rightarrow> string" where
  \<comment> \<open>\<open>s.padStart(n, c)\<close> for a one-character filler\<close>
  "padStart n c s = replicate (n - length s) c @ s"

definition toLowerCase_char :: "char \<Rightarrow> char" where
  "toLowerCase_char c =
     (case map_of (zip ''ABCDEFGHIJKLMNOPQRSTUVWXYZ'' ''abcdefghijklmnopqrstuvwxyz'') c of
        Some l \<Rightarrow> l
      | None \<Rightarrow> c)"

definition toLowerCase :: "string \<Rightarrow> string" where
  \<comment> \<open>\<open>String.prototype.toLowerCase\<close> on a string of ASCII characters: the letters A to Z
      are mapped to a to z. The case mapping of the other characters of Unicode is not
      modelled; a statement about every label is made for the labels that satisfy \<open>ascii\<close>\<close>
  "toLowerCase s = map toLowerCase_char s"

definition ascii :: "string \<Rightarrow> bool" where
  \<comment> \<open>every byte is below 128, so every character is an ASCII character\<close>
  "ascii s = list_all (\<lambda>c. \<not> digit7 c) s"

definition startsWith :: "string \<Rightarrow> string \<Rightarrow> bool" where
  "startsWith s p = prefix p s"

section \<open>Values, elements and what React puts on the page\<close>

text \<open>
  The values that the components place between tags. \<open>JFunction\<close> and \<open>JObject\<close> name a
  built-in function or object; it is never called or read here, only tested for truth and
  handed to React.
\<close>

datatype js_value =
    JString string
  | JNumber nat
  | JBoolean bool
  | JNull
  | JUndefined
  | JFunction string
  | JObject string

fun truthy :: "js_value \<Rightarrow> bool" where
  "truthy (JString s) = (s \<noteq> [])"
| "truthy (JNumber n) = (n \<noteq> 0)"
| "truthy (JBoolean b) = b"
| "truthy JNull = False"
| "truthy JUndefined = False"
| "truthy (JFunction f) = True"
| "truthy (JObject x) = True"

datatype attr = AString string | Percent rat

datatype jsx =
    Element string string "(string \<times> attr) list" "jsx list"
      \<comment> \<open>tag, className, the other attributes, children\<close>
  | Fragment "jsx list"
      \<comment> \<open>\<open><>...</>\<close>, or the array that \<open>map\<close> returns\<close>
  | Val js_value

datatype dom = Node string string "(string \<times> attr) list" "dom list" | TextNode string

text \<open>
  React renders a string or a number as text (the empty string as nothing), renders
  nothing for a boolean, \<open>null\<close>, \<open>undefined\<close> and a function, and throws for any other
  object that is not an element (\<open>None\<close>). React writes every style as given, and the
  browser ignores a negative percentage for a width.
\<close>

fun rendered_attr :: "string \<times> attr \<Rightarrow> bool" where
  "rendered_attr (k, Percent r) = (0 \<le> r)"
| "rendered_attr (k, AString v) = True"

fun mount :: "jsx \<Rightarrow> dom list option"
  and mount_all :: "jsx list \<Rightarrow> dom list option" where
  "mount (Val (JString s)) = Some (if s = [] then [] else [TextNode s])"
| "mount (Val (JNumber n)) = Some [TextNode (digits n)]"
| "mount (Val (JBoolean b)) = Some []"
| "mount (Val JNull) = Some []"
| "mount (Val JUndefined) = Some []"
| "mount (Val (JFunction f)) = Some []"
| "mount (Val (JObject x)) = None"
| "mount (Fragment ks) = mount_all ks"
| "mount (Element t c as ks) =
     (case mount_all ks of
        None \<Rightarrow> None
      | Some ds \<Rightarrow> Some [Node t c (filter rendered_attr as) ds])"
| "mount_all [] = Some []"
| "mount_all (k # ks) =
     (case mount k of
        None \<Rightarrow> None
      | Some d \<Rightarrow> (case mount_all ks of None \<Rightarrow> None | Some ds \<Rightarrow> Some (d @ ds)))"

fun has_class :: "string \<Rightarrow> dom \<Rightarrow> bool" where
  "has_class c (Node t cls as ds) = (cls = c \<or> list_ex (has_class c) ds)"
| "has_class c (TextNode s) = False"

definition shows_class :: "string \<Rightarrow> jsx \<Rightarrow> bool" where
  \<comment> \<open>the page that React builds from the element holds a node of class \<open>c\<close>\<close>
  "shows_class c e = (case mount e of None \<Rightarrow> False | Some ds \<Rightarrow> list_ex (has_class c) ds)"

definition and_then :: "js_value \<Rightarrow> jsx \<Rightarrow> jsx" where
  \<comment> \<open>\<open>a && (b)\<close>\<close>
  "and_then a b = (if truthy a then b else Val a)"

definition nullable :: "string option \<Rightarrow> js_value" where
  \<comment> \<open>an optional string field of the response: absent is \<open>null\<close>\<close>
  "nullable field = (case field of None \<Rightarrow> JNull | Some s \<Rightarrow> JString s)"

definition string_section :: "string option \<Rightarrow> (string \<Rightarrow> jsx) \<Rightarrow> jsx" where
  \<comment> \<open>\<open>field && (view)\<close> for an optional string field\<close>
  "string_section field view =
     (case field of None \<Rightarrow> Val JNull | Some s \<Rightarrow> and_then (JString s) (view s))"

definition list_section :: "'a list option \<Rightarrow> ('a list \<Rightarrow> jsx) \<Rightarrow> jsx" where
  \<comment> \<open>\<open>field && field.length > 0 && (view)\<close>: an array is truthy, also when empty\<close>
  "list_section field view =
     (case field of
        None \<Rightarrow> Val JNull
      | Some xs \<Rightarrow> and_then (JBoolean (0 < length xs)) (view xs))"

section \<open>MoodDisplay.js\<close>

record mood_analysis =
  primary_mood :: string
  confidence :: rat
  secondary_moods :: "string list option"
  reasoning :: "string option"
  visual_elements :: "(string \<times> string) list option"

definition relieved_face :: string where
  "relieved_face = [CHR 0xF0, CHR 0x9F, CHR 0x98, CHR 0x8C]"

definition high_voltage :: string where
  "high_voltage = [CHR 0xE2, CHR 0x9A, CHR 0xA1]"

definition two_hearts :: string where
  "two_hearts = [CHR 0xF0, CHR 0x9F, CHR 0x92, CHR 0x95]"

definition new_moon :: string where
  "new_moon = [CHR 0xF0, CHR 0x9F, CHR 0x8C, CHR 0x91]"

definition pensive_face :: string where
  "pensive_face = [CHR 0xF0, CHR 0x9F, CHR 0x98, CHR 0x94]"

definition smiling_face :: string where
  "smiling_face = [CHR 0xF0, CHR 0x9F, CHR 0x98, CHR 0x84]"

definition crystal_ball :: string where
  "crystal_ball = [CHR 0xF0, CHR 0x9F, CHR 0x94, CHR 0xAE]"

definition triumph_face :: string where
  "triumph_face = [CHR 0xF0, CHR 0x9F, CHR 0x98, CHR 0xA4]"

definition sparkles :: string where
  "sparkles = [CHR 0xE2, CHR 0x9C, CHR 0xA8]"

definition glowing_star :: string where
  "glowing_star = [CHR 0xF0, CHR 0x9F, CHR 0x8C, CHR 0x9F]"

definition artist_palette :: string where
  "artist_palette = [CHR 0xF0, CHR 0x9F, CHR 0x8E, CHR 0xA8]"

definition moodEmojis :: "(string \<times> string) list" where
  "moodEmojis =
     [(''calm'', relieved_face),
      (''energetic'', high_voltage),
      (''romantic'', two_hearts),
      (''dark'', new_moon),
      (''melancholic'', pensive_face),
      (''joyful'', smiling_face),
      (''mysterious'', crystal_ball),
      (''aggressive'', triumph_face),
      (''dreamy'', sparkles),
      (''uplifting'', glowing_star)]"

text \<open>
  \<open>moodEmojis\<close> is an object literal, so a property it does not own is looked up in
  \<open>Object.prototype\<close>. These are the properties of \<open>Object.prototype\<close>; \<open>__proto__\<close> is an
  accessor, and read on the literal it gives \<open>Object.prototype\<close> itself.
\<close>

definition Object_prototype :: "(string \<times> js_value) list" where
  "Object_prototype =
     [(''constructor'', JFunction ''Object''),
      (''__defineGetter__'', JFunction ''__defineGetter__''),
      (''__defineSetter__'', JFunction ''__defineSetter__''),
      (''hasOwnProperty'', JFunction ''hasOwnProperty''),
      (''__lookupGetter__'', JFunction ''__lookupGetter__''),
      (''__lookupSetter__'', JFunction ''__lookupSetter__''),
      (''isPrototypeOf'', JFunction ''isPrototypeOf''),
      (''propertyIsEnumerable'', JFunction ''propertyIsEnumerable''),
      (''toString'', JFunction ''toString''),
      (''valueOf'', JFunction ''valueOf''),
      (''toLocaleString'', JFunction ''toLocaleString''),
      (''__proto__'', JObject ''Object.prototype'')]"

definition get_property :: "(string \<times> string) list \<Rightarrow> string \<Rightarrow> js_value" where
  \<comment> \<open>\<open>obj[key]\<close> on an object literal with string properties\<close>
  "get_property obj key =
     (case map_of obj key of
        Some v \<Rightarrow> JString v
      | None \<Rightarrow> (case map_of Object_prototype key of Some v \<Rightarrow> v | None \<Rightarrow> JUndefined))"

definition getMoodEmoji :: "string \<Rightarrow> js_value" where
  "getMoodEmoji label =
     (let found = get_property moodEmojis (toLowerCase label)
      in if truthy found then found else JString artist_palette)"

definition MoodDisplay :: "mood_analysis \<Rightarrow> jsx" where
  "MoodDisplay moodAnalysis =
     Element ''div'' ''mood-display'' []
       [Element ''h2'' ''section-title'' [] [Val (JString ''Detected Mood'')],
        Element ''div'' ''primary-mood'' []
          [Element ''div'' ''mood-emoji'' [] [Val (getMoodEmoji (primary_mood moodAnalysis))],
           Element ''div'' ''mood-info'' []
             [Element ''h3'' ''mood-name'' [] [Val (JString (primary_mood moodAnalysis))],
              Element ''div'' ''confidence-bar'' []
                [Element ''div'' ''confidence-fill''
                   [(''style.width'', Percent (js_times (confidence moodAnalysis) 100))] []],
              Element ''p'' ''confidence-text'' []
                [Val (JString (toFixed0 (js_times (confidence moodAnalysis) 100))),
                 Val (JString ''% confidence'')]]],
        list_section (secondary_moods moodAnalysis) (\<lambda>moods.
          Element ''div'' ''secondary-moods'' []
            [Element ''h4'' [] [] [Val (JString ''Secondary Moods'')],
             Element ''div'' ''mood-tags'' []
               (map (\<lambda>m. Element ''span'' ''mood-tag'' []
                            [Val (getMoodEmoji m), Val (JString '' ''), Val (JString m)])
                  moods)]),
        string_section (reasoning moodAnalysis) (\<lambda>text.
          Element ''div'' ''reasoning'' []
            [Element ''h4'' [] [] [Val (JString ''Analysis'')],
             Element ''p'' [] [] [Val (JString text)]]),
        (case visual_elements moodAnalysis of
           None \<Rightarrow> Val JNull
         | Some entries \<Rightarrow>
             Element ''div'' ''visual-elements'' []
               [Element ''h4'' [] [] [Val (JString ''Visual Elements'')],
                Element ''div'' ''elements-grid'' []
                  (map (\<lambda>(k, v). Element ''div'' ''element-item'' []
                                 [Element ''span'' ''element-key'' []
                                    [Val (JString k), Val (JString '':'')],
                                  Element ''span'' ''element-value'' [] [Val (JString v)]])
                     entries)])]"

section \<open>MusicRecommendations.js\<close>

record track =
  track_name :: string
  artist :: string
  album :: string
  duration_ms :: nat
  track_image :: "string option"
  preview_url :: "string option"
  track_url :: "string option"

record recommendations =
  mood :: string
  mood_description :: string
  genres :: "string list option"
  track_count :: nat
  tracks :: "track list"

record playlist =
  playlist_name :: string
  description :: "string option"
  playlist_tracks :: "nat option"
  playlist_image :: "string option"
  playlist_url :: "string option"

definition formatDuration :: "nat \<Rightarrow> string" where
  "formatDuration ms =
     (let minutes = Math_floor (js_divide (of_nat ms) 60000);
          seconds = toFixed0 (js_divide (js_remainder ms 60000) 1000)
      in digits (nat minutes) @ '':'' @ padStart 2 (CHR ''0'') seconds)"

definition musical_note :: string where
  "musical_note = [CHR 0xF0, CHR 0x9F, CHR 0x8E, CHR 0xB5]"

definition track_card :: "nat \<times> track \<Rightarrow> jsx" where
  \<comment> \<open>the body of \<open>recommendations.tracks.map((track, index) => ...)\<close>\<close>
  "track_card = (\<lambda>(index, t).
     Element ''div'' ''track-card'' []
       [Element ''div'' ''track-number'' [] [Val (JNumber (index + 1))],
        string_section (track_image t) (\<lambda>src.
          Element ''img'' ''track-image'' [(''src'', AString src), (''alt'', AString (album t))] []),
        Element ''div'' ''track-info'' []
          [Element ''h4'' ''track-name'' [] [Val (JString (track_name t))],
           Element ''p'' ''track-artist'' [] [Val (JString (artist t))],
           Element ''p'' ''track-album'' [] [Val (JString (album t))]],
        Element ''div'' ''track-actions'' []
          [Element ''span'' ''track-duration'' [] [Val (JString (formatDuration (duration_ms t)))],
           string_section (preview_url t) (\<lambda>src.
             Element ''audio'' ''track-preview'' [(''controls'', AString [])]
               [Element ''source'' [] [(''src'', AString src), (''type'', AString ''audio/mpeg'')]
                  []]),
           string_section (track_url t) (\<lambda>href.
             Element ''a'' ''spotify-link''
               [(''href'', AString href), (''target'', AString ''_blank''),
                (''rel'', AString ''noopener noreferrer'')]
               [Val (JString (musical_note @ '' Open in Spotify''))])]])"

definition playlist_card :: "playlist \<Rightarrow> jsx" where
  \<comment> \<open>the body of \<open>playlists.map((playlist, index) => ...)\<close>\<close>
  "playlist_card p =
     Element ''div'' ''playlist-card'' []
       [string_section (playlist_image p) (\<lambda>src.
          Element ''img'' ''playlist-image''
            [(''src'', AString src), (''alt'', AString (playlist_name p))] []),
        Element ''div'' ''playlist-info'' []
          [Element ''h4'' ''playlist-name'' [] [Val (JString (playlist_name p))],
           string_section (description p) (\<lambda>text.
             Element ''p'' ''playlist-description'' [] [Val (JString text)]),
           (case playlist_tracks p of
              None \<Rightarrow> Val JNull
            | Some n \<Rightarrow>
                and_then (JNumber n)
                  (Element ''p'' ''playlist-tracks'' []
                     [Val (JNumber n), Val (JString '' tracks'')])),
           string_section (playlist_url p) (\<lambda>href.
             Element ''a'' ''playlist-link''
               [(''href'', AString href), (''target'', AString ''_blank''),
                (''rel'', AString ''noopener noreferrer'')]
               [Val (JString ''Open Playlist'')])]]"

definition MusicRecommendations :: "recommendations \<Rightarrow> playlist list option \<Rightarrow> jsx" where
  "MusicRecommendations recs playlists =
     Element ''div'' ''music-recommendations'' []
       [Element ''h2'' ''section-title'' [] [Val (JString ''Music Recommendations'')],
        Element ''div'' ''mood-info-bar'' []
          [Element ''div'' ''mood-badge'' [] [Val (JString (mood recs))],
           Element ''p'' ''mood-description'' [] [Val (JString (mood_description recs))]],
        list_section (genres recs) (\<lambda>gs.
          Element ''div'' ''genres'' []
            [Element ''span'' ''genre-label'' [] [Val (JString ''Genres:'')],
             Fragment (map (\<lambda>genre. Element ''span'' ''genre-tag'' [] [Val (JString genre)]) gs)]),
        Element ''div'' ''tracks-container'' []
          [Element ''h3'' ''subsection-title'' []
             [Val (JNumber (track_count recs)), Val (JString '' Tracks Found'')],
           Element ''div'' ''tracks-list'' []
             (map track_card (enumerate 0 (tracks recs)))],
        list_section playlists (\<lambda>ps.
          Element ''div'' ''playlists-container'' []
            [Element ''h3'' ''subsection-title'' [] [Val (JString ''Curated Playlists'')],
             Element ''div'' ''playlists-grid'' [] (map playlist_card ps)])]"

section \<open>ImageUpload.js and App.js: the state\<close>

record js_file =
  file_name :: string
  file_type :: string

record analysis_result =
  mood_analysis :: mood_analysis
  music_recommendations :: recommendations
  playlists :: "playlist list option"

record request =
  url :: string
  http_method :: string
  form_data :: "(string \<times> js_file) list"

text \<open>
  How a \<open>fetch\<close> promise settles: rejected with the message of a transport error, or
  resolved with a response, whose \<open>json()\<close> either rejects with the message of a syntax error
  or gives the body.
\<close>

datatype response = Response (ok: bool) (json: "string + analysis_result")

datatype settled = Rejected string | Resolved response

text \<open>
  The state of the page: the four state variables of \<open>App\<close>, the two of the mounted
  \<open>ImageUpload\<close>, and what has left the page: the alerts shown, the requests issued, the
  number of \<open>handleImageUpload\<close> calls waiting at \<open>await fetch\<close>, and the \<open>FileReader\<close> reads
  under way, each with the key of the \<open>ImageUpload\<close> instance that started it.
\<close>

record page =
  analyzing :: bool
  result :: "analysis_result option"
  error :: "string option"
  resetKey :: nat
  dragActive :: bool
  preview :: "string option"
  alerts :: "string list"
  requests :: "request list"
  in_flight :: nat
  reads :: "(nat \<times> js_file) list"

definition initial :: page where
  "initial =
     \<lparr>analyzing = False, result = None, error = None, resetKey = 0,
      dragActive = False, preview = None,
      alerts = [], requests = [], in_flight = 0, reads = []\<rparr>"

section \<open>App.js\<close>

definition analyze_request :: "js_file \<Rightarrow> request" where
  "analyze_request f =
     \<lparr>url = ''http://localhost:8000/analyze?track_limit=20&include_playlists=true'',
      http_method = ''POST'',
      form_data = [(''file'', f)]\<rparr>"

definition handleImageUpload_call :: "page \<Rightarrow> js_file \<Rightarrow> page" where
  \<comment> \<open>\<open>handleImageUpload(file)\<close> up to \<open>await fetch(...)\<close>\<close>
  "handleImageUpload_call s f =
     s\<lparr>analyzing := True, error := None, result := None,
       requests := requests s @ [analyze_request f],
       in_flight := in_flight s + 1\<rparr>"

definition handleImageUpload_resume :: "page \<Rightarrow> settled \<Rightarrow> page" where
  \<comment> \<open>the rest of \<open>handleImageUpload\<close>, run when the promise of \<open>fetch\<close> settles\<close>
  "handleImageUpload_resume s outcome =
     (let s' =
        (case outcome of
           Rejected message \<Rightarrow> s\<lparr>error := Some message\<rparr>
         | Resolved r \<Rightarrow>
             if \<not> ok r then s\<lparr>error := Some ''Failed to analyze image''\<rparr>
             else (case json r of
                     Inl message \<Rightarrow> s\<lparr>error := Some message\<rparr>
                   | Inr data \<Rightarrow> s\<lparr>result := Some data\<rparr>))
      in s'\<lparr>analyzing := False, in_flight := in_flight s - 1\<rparr>)"

definition handleReset :: "page \<Rightarrow> page" where
  "handleReset s =
     s\<lparr>result := None, error := None, analyzing := False, resetKey := resetKey s + 1\<rparr>"

definition reconcile :: "page \<Rightarrow> page \<Rightarrow> page" where
  \<comment> \<open>React after an update of \<open>App\<close>: \<open>ImageUpload\<close> is keyed by \<open>resetKey\<close>, and a new key
      unmounts the instance and mounts a fresh one, with its initial state\<close>
  "reconcile old new =
     (if resetKey new = resetKey old then new
      else new\<lparr>dragActive := False, preview := None\<rparr>)"

section \<open>ImageUpload.js\<close>

definition handleDrag :: "page \<Rightarrow> string \<Rightarrow> page" where
  "handleDrag s event_type =
     (if event_type = ''dragenter'' \<or> event_type = ''dragover'' then s\<lparr>dragActive := True\<rparr>
      else if event_type = ''dragleave'' then s\<lparr>dragActive := False\<rparr>
      else s)"

definition handleFile :: "page \<Rightarrow> js_file \<Rightarrow> page" where
  "handleFile s f =
     (if \<not> startsWith (file_type f) ''image/''
      then s\<lparr>alerts := alerts s @ [''Please upload an image file'']\<rparr>
      else handleImageUpload_call (s\<lparr>reads := reads s @ [(resetKey s, f)]\<rparr>) f)"

definition handleDrop :: "page \<Rightarrow> js_file list \<Rightarrow> page" where
  \<comment> \<open>the list is \<open>e.dataTransfer.files\<close>\<close>
  "handleDrop s files =
     (let s' = s\<lparr>dragActive := False\<rparr>
      in case files of [] \<Rightarrow> s' | f # _ \<Rightarrow> handleFile s' f)"

definition handleChange :: "page \<Rightarrow> js_file list \<Rightarrow> page" where
  \<comment> \<open>the list is \<open>e.target.files\<close>\<close>
  "handleChange s files = (case files of [] \<Rightarrow> s | f # _ \<Rightarrow> handleFile s f)"

definition onloadend :: "page \<Rightarrow> nat \<Rightarrow> string option \<Rightarrow> page" where
  \<comment> \<open>the read started by the instance of key \<open>k\<close> ends with \<open>reader.result\<close>; setting the
      state of an instance that is no longer mounted does nothing\<close>
  "onloadend s k data_url = (if k = resetKey s then s\<lparr>preview := data_url\<rparr> else s)"





section \<open>App.js: what is shown\<close>



definition result_or_error :: "page \<Rightarrow> js_value" where
  \<comment> \<open>\<open>result || error\<close>; the result is an object\<close>
  "result_or_error s =
     (case result s of Some data \<Rightarrow> JObject ''result'' | None \<Rightarrow> nullable (error s))"


section \<open>What can happen on the page\<close>

text \<open>
  An event runs one handler to its end. \<open>Settle\<close> is the promise of an outstanding
  \<open>fetch\<close> settling; \<open>LoadEnd i\<close> is the end of the \<open>i\<close>-th read under way. The reset button
  exists only while \<open>result || error\<close> is truthy. An event that cannot happen in a state
  gives \<open>None\<close>.
\<close>

datatype event =
    Drag string
  | Drop "js_file list"
  | Change "js_file list"
  | Settle settled
  | LoadEnd nat "string option"
  | ClickReset

definition step :: "page \<Rightarrow> event \<Rightarrow> page option" where
  "step s e =
     (case e of
        Drag event_type \<Rightarrow> Some (handleDrag s event_type)
      | Drop files \<Rightarrow> Some (handleDrop s files)
      | Change files \<Rightarrow> Some (handleChange s files)
      | Settle outcome \<Rightarrow>
          if in_flight s = 0 then None else Some (handleImageUpload_resume s outcome)
      | LoadEnd i data_url \<Rightarrow>
          if i < length (reads s)
          then Some (onloadend (s\<lparr>reads := take i (reads s) @ drop (Suc i) (reads s)\<rparr>)
                       (fst (reads s ! i)) data_url)
          else None
      | ClickReset \<Rightarrow>
          if truthy (result_or_error s) then Some (reconcile s (handleReset s)) else None)"

fun run :: "page \<Rightarrow> event list \<Rightarrow> page option" where
  "run s [] = Some s"
| "run s (e # es) = (case step s e of None \<Rightarrow> None | Some s' \<Rightarrow> run s' es)"

definition submits :: "event \<Rightarrow> bool" where
  \<comment> \<open>the event hands an image file to \<open>handleFile\<close>, which calls \<open>onImageUpload\<close>\<close>
  "submits e =
     (case e of
        Drop (f # fs) \<Rightarrow> startsWith (file_type f) ''image/''
      | Change (f # fs) \<Rightarrow> startsWith (file_type f) ''image/''
      | _ \<Rightarrow> False)"


section \<open>Reading elements and pages\<close>

text \<open>
  What a class shows can be read from the element before React builds the page: the two
  readings agree whenever the page is built (lemmas \<open>has_class_mount\<close>, \<open>widths_mount\<close>).
\<close>

fun jsx_has_class :: "string \<Rightarrow> jsx \<Rightarrow> bool" where
  "jsx_has_class c (Element t cls as ks) = (cls = c \<or> list_ex (jsx_has_class c) ks)"
| "jsx_has_class c (Fragment ks) = list_ex (jsx_has_class c) ks"
| "jsx_has_class c (Val v) = False"



definition mood_labels :: "mood_analysis \<Rightarrow> string list" where
  \<comment> \<open>the labels that \<open>MoodDisplay\<close> hands to \<open>getMoodEmoji\<close>\<close>
  "mood_labels ma =
     primary_mood ma # (case secondary_moods ma of None \<Rightarrow> [] | Some moods \<Rightarrow> moods)"



definition reads_known :: "page \<Rightarrow> bool" where
  \<comment> \<open>every read under way was started by the mounted instance or by an earlier one\<close>
  "reads_known s = list_all (\<lambda>started. fst started \<le> resetKey s) (reads s)"

section \<open>Sample inputs\<close>

definition a_png :: js_file where
  "a_png = \<lparr>file_name = ''sunset.png'', file_type = ''image/png''\<rparr>"

definition a_pdf :: js_file where
  "a_pdf = \<lparr>file_name = ''notes.pdf'', file_type = ''application/pdf''\<rparr>"

definition server_error :: response where
  \<comment> \<open>a response of status 500\<close>
  "server_error = Response False (Inl ''Unexpected token I in JSON at position 0'')"

definition calm_mood :: mood_analysis where
  \<comment> \<open>the confidence is the number that the text \<open>0.73\<close> of a response denotes\<close>
  "calm_mood =
     \<lparr>primary_mood = ''Calm'', confidence = binary64 (73 / 100),
      secondary_moods = Some [], reasoning = None, visual_elements = None\<rparr>"

definition dreamy_mood :: mood_analysis where
  \<comment> \<open>the confidence is the number that the text \<open>0.07\<close> denotes\<close>
  "dreamy_mood =
     \<lparr>primary_mood = ''Dreamy'', confidence = binary64 (7 / 100),
      secondary_moods = Some [''calm'', ''Mysterious''], reasoning = None,
      visual_elements = None\<rparr>"

definition proto_mood :: mood_analysis where
  "proto_mood = calm_mood\<lparr>secondary_moods := Some [''__proto__'']\<rparr>"

definition calm_music :: recommendations where
  "calm_music =
     \<lparr>mood = ''calm'', mood_description = ''Quiet and slow'', genres = Some [],
      track_count = 0, tracks = []\<rparr>"


section \<open>Evaluation of numbers and numerals\<close>

lemma bit_length_0: "bit_length 0 = 0"
  by (simp add: bit_length.simps)

lemma bit_length_pos: "n \<noteq> 0 \<Longrightarrow> bit_length n = Suc (bit_length (n div 2))"
  by (subst bit_length.simps) simp

lemma digits_small: "n < 10 \<Longrightarrow> digits n = [digit_char n]"
  by (subst digits.simps) simp

lemma digits_large:
  "\<not> n < 10 \<Longrightarrow> digits n = digits (n div 10) @ [digit_char (n mod 10)]"
  by (subst digits.simps) simp

lemma floor_rat_numeral: "\<lfloor>numeral a / numeral b :: rat\<rfloor> = numeral a div numeral b"
  using floor_divide_of_int_eq [of "numeral a" "numeral b", where ?'a = rat] by simp

lemma ceiling_rat_numeral:
  "\<lceil>numeral a / numeral b :: rat\<rceil> = - (- numeral a div numeral b)"
  using floor_divide_of_int_eq [of "- numeral a" "numeral b", where ?'a = rat]
  by (simp add: ceiling_def)

lemmas number_eval =
  bit_length_0 bit_length_pos digits_small digits_large floor_rat_numeral ceiling_rat_numeral
  binary64_def exponent_def pow2_def round_half_even_def Let_def
  js_times_def js_divide_def js_remainder_def Math_floor_def toFixed0_def padStart_def
  digit_char_def

section \<open>The error of a rounded product\<close>











section \<open>The page that React builds\<close>

lemmas sections = list_section_def string_section_def and_then_def nullable_def


lemma has_class_mount:
  "mount e = Some ds \<Longrightarrow> list_ex (has_class c) ds = jsx_has_class c e"
  "mount_all ks = Some ds' \<Longrightarrow> list_ex (has_class c) ds' = list_ex (jsx_has_class c) ks"
proof (induction e and ks arbitrary: ds and ds' rule: mount_mount_all.induct)
  case (9 t cls as ks)
  then show ?case by (auto split: option.splits)
next
  case (11 k ks)
  then show ?case by (auto split: option.splits)
qed (auto split: if_splits)


lemma shows_class_iff: "mount e = Some ds \<Longrightarrow> shows_class c e = jsx_has_class c e"
  by (simp add: shows_class_def has_class_mount)

lemma mount_all_cong:
  "list_all2 (\<lambda>a b. mount a = mount b) ks ks' \<Longrightarrow> mount_all ks = mount_all ks'"
  by (induction ks ks' rule: list_all2_induct) (simp_all split: option.splits)

lemma mount_Element_cong:
  "list_all2 (\<lambda>a b. mount a = mount b) ks ks' \<Longrightarrow>
     mount (Element t c as ks) = mount (Element t c as ks')"
  by (simp add: mount_all_cong)

lemma mount_list_section_empty:
  "mount (list_section (Some []) view) = mount (list_section None view)"
  by (simp add: sections)

text \<open>When React throws: only for an object among the children.\<close>

lemma mount_Val_None: "(mount (Val v) = None) = (\<exists>x. v = JObject x)"
  by (cases v) auto

lemma mount_Element_None: "(mount (Element t c as ks) = None) = (mount_all ks = None)"
  by (simp split: option.splits)

lemma mount_Fragment_None: "(mount (Fragment ks) = None) = (mount_all ks = None)"
  by simp

lemma mount_all_Cons_None:
  "(mount_all (k # ks) = None) = (mount k = None \<or> mount_all ks = None)"
  by (simp split: option.splits)

lemma mount_all_map_None:
  "(mount_all (map f xs) = None) = (\<exists>x\<in>set xs. mount (f x) = None)"
  by (induction xs) (auto split: option.splits)

lemma mount_all_Nil_None: "(mount_all [] = None) = False"
  by simp

lemmas mount_None =
  mount_Val_None mount_Element_None mount_Fragment_None mount_all_Cons_None mount_all_map_None
  mount_all_Nil_None

lemma mount_track_card: "mount (track_card p) \<noteq> None"
  by (cases p)
    (simp add: track_card_def sections mount_None
      del: mount.simps mount_all.simps not_None_eq split: option.splits)

lemma mount_playlist_card: "mount (playlist_card p) \<noteq> None"
  by (simp add: playlist_card_def sections mount_None
      del: mount.simps mount_all.simps not_None_eq split: option.splits)

lemma mount_MusicRecommendations: "mount (MusicRecommendations recs ps) \<noteq> None"
  by (simp add: MusicRecommendations_def sections mount_None mount_track_card
      mount_playlist_card del: mount.simps mount_all.simps not_None_eq split: option.splits)



section \<open>The classes of the components\<close>

lemma track_card_classes:
  "\<not> jsx_has_class ''genres'' (track_card p) \<and>
   \<not> jsx_has_class ''playlists-container'' (track_card p)"
  by (cases p) (simp add: track_card_def sections split: option.splits)

lemma playlist_card_classes:
  "\<not> jsx_has_class ''genres'' (playlist_card p) \<and>
   \<not> jsx_has_class ''playlists-container'' (playlist_card p)"
  by (simp add: playlist_card_def sections split: option.splits)

lemma jsx_genres:
  "jsx_has_class ''genres'' (MusicRecommendations recs ps) =
     (\<exists>gs. genres recs = Some gs \<and> gs \<noteq> [])"
  by (auto simp: MusicRecommendations_def sections list_ex_iff track_card_classes
      playlist_card_classes split: option.splits)

lemma jsx_playlists:
  "jsx_has_class ''playlists-container'' (MusicRecommendations recs ps) =
     (\<exists>xs. ps = Some xs \<and> xs \<noteq> [])"
  by (auto simp: MusicRecommendations_def sections list_ex_iff track_card_classes
      playlist_card_classes split: option.splits)



section \<open>The emoji of a label\<close>

lemma toLowerCase_char_not_upper:
  "toLowerCase_char c \<notin> set ''ABCDEFGHIJKLMNOPQRSTUVWXYZ''"
  by (simp add: toLowerCase_char_def)

lemma toLowerCase_no_upper:
  "u \<in> set ''ABCDEFGHIJKLMNOPQRSTUVWXYZ'' \<Longrightarrow> u \<notin> set (toLowerCase s)"
  using toLowerCase_char_not_upper by (auto simp: toLowerCase_def)

lemma toLowerCase_not_inherited:
  "map_of Object_prototype (toLowerCase s) =
     (if toLowerCase s = ''constructor'' then Some (JFunction ''Object'')
      else if toLowerCase s = ''__proto__'' then Some (JObject ''Object.prototype'')
      else None)"
proof -
  have "toLowerCase s \<noteq> k" if "u \<in> set ''ABCDEFGHIJKLMNOPQRSTUVWXYZ''" "u \<in> set k" for u k
    using toLowerCase_no_upper [OF that(1), of s] that(2) by auto
  from this [of "CHR ''G''" "''__defineGetter__''"] this [of "CHR ''S''" "''__defineSetter__''"]
    this [of "CHR ''O''" "''hasOwnProperty''"] this [of "CHR ''G''" "''__lookupGetter__''"]
    this [of "CHR ''S''" "''__lookupSetter__''"] this [of "CHR ''P''" "''isPrototypeOf''"]
    this [of "CHR ''I''" "''propertyIsEnumerable''"] this [of "CHR ''S''" "''toString''"]
    this [of "CHR ''O''" "''valueOf''"] this [of "CHR ''L''" "''toLocaleString''"]
  show ?thesis
    by (simp add: Object_prototype_def)
qed

lemma moodEmojis_nonempty: "map_of moodEmojis k = Some v \<Longrightarrow> v \<noteq> []"
  by (auto simp: moodEmojis_def relieved_face_def high_voltage_def two_hearts_def new_moon_def
      pensive_face_def smiling_face_def crystal_ball_def triumph_face_def sparkles_def
      glowing_star_def split: if_splits)

lemma moodEmojis_proto: "map_of moodEmojis ''__proto__'' = None"
  by (simp add: moodEmojis_def)

lemma getMoodEmoji_object:
  "(\<exists>x. getMoodEmoji label = JObject x) = (toLowerCase label = ''__proto__'')"
  by (auto simp: getMoodEmoji_def get_property_def toLowerCase_not_inherited moodEmojis_proto
      split: option.splits)

lemma mount_MoodDisplay_None:
  "(mount (MoodDisplay ma) = None) =
     (\<not> list_all (\<lambda>label. toLowerCase label \<noteq> ''__proto__'') (mood_labels ma))"
  by (auto simp: MoodDisplay_def sections mount_None getMoodEmoji_object mood_labels_def
      list_all_iff case_prod_unfold
      simp del: mount.simps mount_all.simps not_None_eq split: option.splits)



lemma secondary_section:
  "shows_class ''secondary-moods'' (MoodDisplay ma) =
     ((\<exists>ms. secondary_moods ma = Some ms \<and> ms \<noteq> []) \<and>
      list_all (\<lambda>label. toLowerCase label \<noteq> ''__proto__'') (mood_labels ma))"
proof (cases "mount (MoodDisplay ma)")
  case None
  then show ?thesis
    using mount_MoodDisplay_None [of ma] by (simp add: shows_class_def)
next
  case (Some ds)
  have "jsx_has_class ''secondary-moods'' (MoodDisplay ma) =
      (\<exists>ms. secondary_moods ma = Some ms \<and> ms \<noteq> [])"
    by (auto simp: MoodDisplay_def sections list_ex_iff case_prod_unfold split: option.splits)
  then show ?thesis
    using Some mount_MoodDisplay_None [of ma] by (simp add: shows_class_iff)
qed




section \<open>The handlers\<close>

lemmas handlers =
  step_def handleDrag_def handleDrop_def handleChange_def handleFile_def onloadend_def
  handleImageUpload_call_def handleImageUpload_resume_def handleReset_def reconcile_def
  result_or_error_def nullable_def submits_def Let_def





section \<open>Upload Capture and the request lifecycle\<close>










text \<open>
  C4. A file whose declared content type does not begin with \<open>image/\<close> is answered with an
  alert and nothing else: \<open>handleFile\<close> changes no other part of the page, so the flag
  \<open>analyzing\<close>, the result, the error message, the preview, the requests issued and the calls
  outstanding are as before, and no submit was made. From the picker the page changes in the
  alert only; from a drop, in the alert and in the drag highlight, which the drop ends.
\<close>

theorem non_image_is_rejected_with_alert:
  "\<not> startsWith (file_type f) ''image/'' \<Longrightarrow>
     handleFile s f = s\<lparr>alerts := alerts s @ [''Please upload an image file'']\<rparr> \<and>
     step s (Change (f # fs)) =
       Some (s\<lparr>alerts := alerts s @ [''Please upload an image file'']\<rparr>) \<and>
     step s (Drop (f # fs)) =
       Some (s\<lparr>dragActive := False, alerts := alerts s @ [''Please upload an image file'']\<rparr>)"
  by (simp add: handleFile_def step_def handleChange_def handleDrop_def)

theorem non_image_is_rejected_with_alert_witness:
  "\<not> startsWith (file_type a_pdf) ''image/'' \<and>
   handleFile initial a_pdf = initial\<lparr>alerts := [''Please upload an image file'']\<rparr> \<and>
   step initial (Drop [a_pdf]) = Some (initial\<lparr>alerts := [''Please upload an image file'']\<rparr>)"
proof -
  have other: "\<not> startsWith (file_type a_pdf) ''image/''"
    by (simp add: a_pdf_def startsWith_def)
  from non_image_is_rejected_with_alert [OF other, of initial "[]"]
  show ?thesis using other by (simp add: initial_def)
qed

text \<open>
  C5. Reset gives the lifecycle its initial value: \<open>analyzing\<close> false, result and error
  \<open>null\<close>. It changes the key of \<open>ImageUpload\<close>, so React mounts a fresh instance, whose
  preview is empty and whose drag highlight is off. The reset button is on the page whenever
  a result or a non-empty error message is set, and clicking it does exactly this.
\<close>

theorem reset_restores_idle:
  "analyzing (reconcile s (handleReset s)) = analyzing initial \<and>
   result (reconcile s (handleReset s)) = result initial \<and>
   error (reconcile s (handleReset s)) = error initial \<and>
   resetKey (reconcile s (handleReset s)) \<noteq> resetKey s \<and>
   preview (reconcile s (handleReset s)) = preview initial \<and>
   dragActive (reconcile s (handleReset s)) = dragActive initial \<and>
   (result s \<noteq> None \<or> (\<exists>m. error s = Some m \<and> m \<noteq> []) \<longrightarrow>
      step s ClickReset = Some (reconcile s (handleReset s)))"
  by (auto simp: handlers initial_def split: option.splits)

theorem reset_restores_idle_witness:
  "(\<exists>s. run initial [Drop [a_png], LoadEnd 0 (Some ''data:image/png;base64,AAAA''),
           Settle (Resolved server_error)] = Some s \<and>
        error s \<noteq> None \<and> preview s \<noteq> None \<and>
        (\<exists>s'. step s ClickReset = Some s' \<and> error s' = None \<and> result s' = None \<and>
           \<not> analyzing s' \<and> preview s' = None))"
proof -
  define s where "s = handleImageUpload_resume
    (onloadend ((handleDrop initial [a_png])\<lparr>reads := []\<rparr>) 0 (Some ''data:image/png;base64,AAAA''))
    (Resolved server_error)"
  have run: "run initial [Drop [a_png], LoadEnd 0 (Some ''data:image/png;base64,AAAA''),
      Settle (Resolved server_error)] = Some s"
    by (simp add: s_def handlers initial_def a_png_def startsWith_def)
  have failed: "error s = Some ''Failed to analyze image''" "preview s \<noteq> None"
    by (simp_all add: s_def handlers initial_def a_png_def startsWith_def server_error_def)
  from reset_restores_idle [of s] failed
  have "step s ClickReset = Some (reconcile s (handleReset s)) \<and>
    error (reconcile s (handleReset s)) = None \<and> result (reconcile s (handleReset s)) = None \<and>
    \<not> analyzing (reconcile s (handleReset s)) \<and> preview (reconcile s (handleReset s)) = None"
    by (simp add: initial_def)
  then show ?thesis using run failed by simp
qed

lemma step_reads_known: "reads_known s \<Longrightarrow> step s e = Some s' \<Longrightarrow> reads_known s'"
  by (cases e;
      auto simp: reads_known_def list_all_iff handlers
        dest!: in_set_takeD in_set_dropD
        split: if_splits list.splits settled.splits sum.splits option.splits;
      fastforce)

lemma run_reads_known: "reads_known s \<Longrightarrow> run s es = Some s' \<Longrightarrow> reads_known s'"
  by (induction es arbitrary: s) (auto split: option.splits dest: step_reads_known)

text \<open>
  X2. After a reset the preview stays empty when a read that was started before the reset
  ends: the read belongs to the instance of \<open>ImageUpload\<close> that the reset unmounted.
\<close>

theorem stale_read_leaves_preview_empty:
  assumes "run initial es = Some s" and "step s ClickReset = Some s'"
    and "step s' (LoadEnd i data_url) = Some s''"
  shows "preview s' = None \<and> preview s'' = None"
proof -
  have "reads_known initial" by (simp add: reads_known_def initial_def)
  then have known: "reads_known s" using assms(1) by (rule run_reads_known)
  have s': "s' = reconcile s (handleReset s)"
    using assms(2) by (simp add: step_def split: if_splits)
  have i: "i < length (reads s)"
    using assms(3) by (simp add: step_def s' handlers split: if_splits)
  then have "reads s ! i \<in> set (reads s)" by simp
  then have "fst (reads s ! i) \<le> resetKey s"
    using known by (auto simp: reads_known_def list_all_iff)
  then show ?thesis
    using assms(3) i by (auto simp: step_def s' handlers split: if_splits)
qed

theorem stale_read_leaves_preview_empty_witness:
  "(\<exists>s s' s''.
      run initial [Drop [a_png], Settle (Resolved server_error)] = Some s \<and>
      step s ClickReset = Some s' \<and>
      step s' (LoadEnd 0 (Some ''data:image/png;base64,AAAA'')) = Some s'' \<and>
      preview s'' = None)"
proof -
  define s where "s = handleImageUpload_resume (handleDrop initial [a_png]) (Resolved server_error)"
  define s' where "s' = reconcile s (handleReset s)"
  define s'' where "s'' = onloadend (s'\<lparr>reads := []\<rparr>) 0 (Some ''data:image/png;base64,AAAA'')"
  have a: "run initial [Drop [a_png], Settle (Resolved server_error)] = Some s"
    by (simp add: s_def handlers initial_def a_png_def startsWith_def)
  have b: "step s ClickReset = Some s'"
    by (simp add: s'_def s_def handlers initial_def a_png_def startsWith_def server_error_def)
  have c: "step s' (LoadEnd 0 (Some ''data:image/png;base64,AAAA'')) = Some s''"
    by (simp add: s''_def s'_def s_def handlers initial_def a_png_def startsWith_def
        server_error_def)
  from stale_read_leaves_preview_empty [OF a b c] a b c
  show ?thesis by blast
qed

section \<open>The duration of a track\<close>

text \<open>
  C6. The claim reads the seconds field as \<open>(ms mod 60000) div 1000\<close>, always between 00
  and 59. \<open>toFixed(0)\<close> rounds to the nearest integer instead of truncating, while the
  minutes are truncated by \<open>Math.floor\<close>: at 59500 ms the formatter prints 60 seconds
  under 0 minutes, and at 1500 ms it prints 02 where the claim says 01.
\<close>

theorem formatDuration_rounds_seconds_up:
  "formatDuration 59500 = ''0:60'' \<and> formatDuration 1500 = ''0:02''
   \<and> formatDuration 119999 = ''1:60''"
  by (simp add: formatDuration_def number_eval)

text \<open>
  C7. The duration formatter maps 65000 ms to \<open>1:05\<close>, 600000 ms to \<open>10:00\<close> and
  5000 ms to \<open>0:05\<close>.
\<close>

theorem formatDuration_examples:
  "formatDuration 65000 = ''1:05'' \<and> formatDuration 600000 = ''10:00''
   \<and> formatDuration 5000 = ''0:05''"
  by (simp add: formatDuration_def number_eval)

section \<open>The mood panel\<close>




text \<open>
  C9. The claim: the emoji is the one keyed by the lower-cased label in the table, and
  every label that is not in the table gets the fallback emoji instead of failing.

  The table is an object literal and \<open>moodEmojis[key]\<close> also finds what the object inherits.
  The label \<open>Constructor\<close> is not in the table, and \<open>getMoodEmoji\<close> returns the function
  \<open>Object\<close>, for which React renders nothing; for the label \<open>__proto__\<close> it returns the
  object \<open>Object.prototype\<close>, and React throws when it builds the page. The label
  \<open>ecstatic\<close> of the claim does get the fallback, and \<open>Calm\<close> its emoji.
\<close>

theorem getMoodEmoji_finds_inherited_properties:
  "map_of moodEmojis (toLowerCase ''Constructor'') = None \<and>
   getMoodEmoji ''Constructor'' = JFunction ''Object'' \<and>
   mount (Val (getMoodEmoji ''Constructor'')) = Some [] \<and>
   map_of moodEmojis (toLowerCase ''__proto__'') = None \<and>
   getMoodEmoji ''__proto__'' = JObject ''Object.prototype'' \<and>
   mount (MoodDisplay (calm_mood\<lparr>primary_mood := ''__proto__''\<rparr>)) = None \<and>
   getMoodEmoji ''ecstatic'' = JString artist_palette \<and>
   getMoodEmoji ''Calm'' = JString relieved_face"
  by (simp add: getMoodEmoji_def get_property_def moodEmojis_def Object_prototype_def
      toLowerCase_def toLowerCase_char_def relieved_face_def artist_palette_def
      MoodDisplay_def calm_mood_def)

text \<open>
  X1. Two names apart, the lookup is as intended: for every ASCII label whose lower-cased
  form is neither \<open>constructor\<close> nor \<open>__proto__\<close>, \<open>getMoodEmoji\<close> returns the emoji keyed
  by the lower-cased label in the table, and the fallback emoji for a label that is not in
  the table. The other properties of \<open>Object.prototype\<close> have a capital letter in their
  names, which no lower-cased label has.
\<close>

theorem getMoodEmoji_table_or_fallback:
  "ascii label \<Longrightarrow>
   toLowerCase label \<noteq> ''constructor'' \<Longrightarrow> toLowerCase label \<noteq> ''__proto__'' \<Longrightarrow>
     getMoodEmoji label =
       JString (case map_of moodEmojis (toLowerCase label) of
                  Some emoji \<Rightarrow> emoji
                | None \<Rightarrow> artist_palette)"
  by (auto simp: getMoodEmoji_def get_property_def toLowerCase_not_inherited
      dest: moodEmojis_nonempty split: option.splits)

theorem getMoodEmoji_table_or_fallback_witness:
  "ascii ''DREAMY'' \<and> toLowerCase ''DREAMY'' = ''dreamy'' \<and>
   getMoodEmoji ''DREAMY'' = JString sparkles \<and>
   ascii ''ecstatic'' \<and> toLowerCase ''ecstatic'' = ''ecstatic'' \<and>
   getMoodEmoji ''ecstatic'' = JString artist_palette"
proof -
  have lower: "toLowerCase ''DREAMY'' = ''dreamy''" "toLowerCase ''ecstatic'' = ''ecstatic''"
    by (simp_all add: toLowerCase_def toLowerCase_char_def)
  have plain: "ascii ''DREAMY''" "ascii ''ecstatic''"
    by (simp_all add: ascii_def)
  from getMoodEmoji_table_or_fallback [OF plain(1)]
    getMoodEmoji_table_or_fallback [OF plain(2)]
  show ?thesis
    using plain by (simp add: lower moodEmojis_def)
qed

section \<open>Optional lists\<close>

text \<open>
  C10. The claim: for the genre list, the playlists and the secondary moods, the section is
  on the page if and only if the field is present and not empty.

  For the secondary moods it fails on a list that is not empty: with the one secondary mood
  \<open>__proto__\<close>, \<open>getMoodEmoji\<close> returns the object \<open>Object.prototype\<close> for the tag of that
  mood, React throws, and the page has no section of secondary moods (and no mood panel).
\<close>

theorem secondary_mood_proto_has_no_section:
  "secondary_moods proto_mood = Some [''__proto__''] \<and>
   getMoodEmoji ''__proto__'' = JObject ''Object.prototype'' \<and>
   mount (MoodDisplay proto_mood) = None \<and>
   \<not> shows_class ''secondary-moods'' (MoodDisplay proto_mood)"
proof -
  have labels: "mood_labels proto_mood = [''Calm'', ''__proto__'']"
    by (simp add: mood_labels_def proto_mood_def calm_mood_def)
  have none: "mount (MoodDisplay proto_mood) = None"
    by (simp add: mount_MoodDisplay_None labels toLowerCase_def toLowerCase_char_def)
  have "getMoodEmoji ''__proto__'' = JObject ''Object.prototype''"
    by (simp add: getMoodEmoji_def get_property_def moodEmojis_def Object_prototype_def
        toLowerCase_def toLowerCase_char_def)
  then show ?thesis
    using none by (simp add: shows_class_def proto_mood_def calm_mood_def)
qed

text \<open>
  X3. An empty list gives the same page as an absent field, for the genre list, the
  playlists and the secondary moods. The genre section and the playlist section are on the
  page exactly when their field is present and not empty. The section of secondary moods is
  on the page exactly when the list is present and not empty and no label of the mood
  analysis is \<open>__proto__\<close> in lower case (for ASCII labels).
\<close>

theorem empty_list_renders_as_absent:
  "mount (MusicRecommendations (recs\<lparr>genres := Some []\<rparr>) ps) =
     mount (MusicRecommendations (recs\<lparr>genres := None\<rparr>) ps) \<and>
   mount (MusicRecommendations recs (Some [])) = mount (MusicRecommendations recs None) \<and>
   mount (MoodDisplay (ma\<lparr>secondary_moods := Some []\<rparr>)) =
     mount (MoodDisplay (ma\<lparr>secondary_moods := None\<rparr>)) \<and>
   shows_class ''genres'' (MusicRecommendations recs ps) =
     (\<exists>gs. genres recs = Some gs \<and> gs \<noteq> []) \<and>
   shows_class ''playlists-container'' (MusicRecommendations recs ps) =
     (\<exists>xs. ps = Some xs \<and> xs \<noteq> []) \<and>
   (list_all ascii (mood_labels ma) \<longrightarrow>
      shows_class ''secondary-moods'' (MoodDisplay ma) =
        ((\<exists>ms. secondary_moods ma = Some ms \<and> ms \<noteq> []) \<and>
         list_all (\<lambda>label. toLowerCase label \<noteq> ''__proto__'') (mood_labels ma)))"
proof -
  have genres: "mount (MusicRecommendations (recs\<lparr>genres := Some []\<rparr>) ps) =
      mount (MusicRecommendations (recs\<lparr>genres := None\<rparr>) ps)"
    unfolding MusicRecommendations_def
    by (rule mount_Element_cong) (simp add: mount_list_section_empty)
  have lists: "mount (MusicRecommendations recs (Some [])) = mount (MusicRecommendations recs None)"
    unfolding MusicRecommendations_def
    by (intro mount_Element_cong list.rel_intros refl mount_list_section_empty)
  have moods: "mount (MoodDisplay (ma\<lparr>secondary_moods := Some []\<rparr>)) =
      mount (MoodDisplay (ma\<lparr>secondary_moods := None\<rparr>))"
    unfolding MoodDisplay_def
    by (rule mount_Element_cong) (simp add: mount_list_section_empty)
  obtain ds where "mount (MusicRecommendations recs ps) = Some ds"
    using mount_MusicRecommendations [of recs ps] by blast
  then have shown: "shows_class c (MusicRecommendations recs ps) =
      jsx_has_class c (MusicRecommendations recs ps)" for c
    by (rule shows_class_iff)
  show ?thesis
    using genres lists moods secondary_section [of ma]
    by (simp add: shown jsx_genres jsx_playlists)
qed

theorem empty_list_renders_as_absent_witness:
  "list_all ascii (mood_labels dreamy_mood) \<and>
   secondary_moods dreamy_mood = Some [''calm'', ''Mysterious''] \<and>
   shows_class ''secondary-moods'' (MoodDisplay dreamy_mood) \<and>
   list_all ascii (mood_labels calm_mood) \<and>
   secondary_moods calm_mood = Some [] \<and>
   \<not> shows_class ''secondary-moods'' (MoodDisplay calm_mood) \<and>
   shows_class ''genres'' (MusicRecommendations (calm_music\<lparr>genres := Some [''ambient'']\<rparr>) None) \<and>
   \<not> shows_class ''genres'' (MusicRecommendations calm_music None)"
proof -
  have dreamy: "mood_labels dreamy_mood = [''Dreamy'', ''calm'', ''Mysterious'']"
    "secondary_moods dreamy_mood = Some [''calm'', ''Mysterious'']"
    by (simp_all add: mood_labels_def dreamy_mood_def)
  have calm: "mood_labels calm_mood = [''Calm'']" "secondary_moods calm_mood = Some []"
    "genres calm_music = Some []"
    by (simp_all add: mood_labels_def calm_mood_def calm_music_def)
  from empty_list_renders_as_absent [of calm_music None dreamy_mood]
    empty_list_renders_as_absent [of "calm_music\<lparr>genres := Some [''ambient'']\<rparr>" None calm_mood]
  show ?thesis
    by (simp add: dreamy calm ascii_def toLowerCase_def toLowerCase_char_def)
qed

end
